theory Spec2Isabelle
  imports Complex_Main
begin

section \<open>The SIR model of main.py\<close>

text \<open>
  The program integrates the three-compartment model
  \<^verbatim>\<open>dS/dt = -beta*I*S/N,  dI/dt = beta*I*S/N - gamma*I,  dR/dt = gamma*I\<close>
  with \<^verbatim>\<open>scipy.integrate.odeint\<close> (function \<^verbatim>\<open>Instance\<close>), wraps it as a forward
  model with one free parameter (function \<^verbatim>\<open>fitting\<close>) and, in \<^verbatim>\<open>main\<close>, builds the
  lmfit parameter set for each region and hands model and data to lmfit's Powell search.

  What is embedded here is the code of main.py. The two libraries are not part of it:
  the integrator is a parameter of \<open>Instance\<close> and \<open>fitting\<close>, and of lmfit only the
  parameter table that \<^verbatim>\<open>main\<close> fills in and the call of the model function are written
  down.
\<close>

subsection \<open>Numbers\<close>

text \<open>
  The state that odeint hands to \<^verbatim>\<open>deriv\<close> is a numpy array of float64, so the arithmetic
  of \<^verbatim>\<open>deriv\<close> is numpy's: a division by zero raises nothing, it yields nan or an infinity
  (and prints a RuntimeWarning), and a result too large for a float is an infinity. A float is
  modelled as a real number when it is finite and as \<open>NonFinite\<close> when it is nan or an
  infinity. Rounding of finite values to 53 bits is not modelled; overflow is.
\<close>

datatype npfloat = Fin real | NonFinite

text \<open>
  The result of one float64 operation whose exact value is \<open>x\<close>. The largest float is
  \<open>2 ^ 1024 - 2 ^ 971\<close>; under round-to-nearest a value of magnitude \<open>2 ^ 1024 - 2 ^ 970\<close>
  (half a unit in the last place above it) or more becomes an infinity.
\<close>

definition overflow_threshold :: real where
  "overflow_threshold = 2 ^ 1024 - 2 ^ 970"

definition to_float :: "real \<Rightarrow> npfloat" where
  "to_float x = (if overflow_threshold \<le> \<bar>x\<bar> then NonFinite else Fin x)"

text \<open>
  With at least one non-finite operand, a product, a sum and a difference are nan or an
  infinity again.
\<close>

fun fl_mul :: "npfloat \<Rightarrow> npfloat \<Rightarrow> npfloat" where
  "fl_mul (Fin a) (Fin b) = to_float (a * b)"
| "fl_mul _ _ = NonFinite"

fun fl_add :: "npfloat \<Rightarrow> npfloat \<Rightarrow> npfloat" where
  "fl_add (Fin a) (Fin b) = to_float (a + b)"
| "fl_add _ _ = NonFinite"

fun fl_sub :: "npfloat \<Rightarrow> npfloat \<Rightarrow> npfloat" where
  "fl_sub (Fin a) (Fin b) = to_float (a - b)"
| "fl_sub _ _ = NonFinite"

text \<open>
  Division of a float by a finite Python number: \<^verbatim>\<open>x / 0\<close> is nan for \<^verbatim>\<open>x = 0\<close> and an
  infinity otherwise, and nan or an infinity divided by a finite number stays one. A finite
  quotient can overflow as a product can.
\<close>

fun fl_div :: "npfloat \<Rightarrow> real \<Rightarrow> npfloat" where
  "fl_div (Fin a) n = (if n = 0 then NonFinite else to_float (a / n))"
| "fl_div NonFinite n = NonFinite"

text \<open>
  A magnitude a factor of two below the largest float. Results of this size stay finite
  also after the rounding of the intermediate results, which moves a value by a relative
  \<open>2 ^ - 53\<close> per operation.
\<close>

definition in_float_range :: "real \<Rightarrow> bool" where
  "in_float_range x = (\<bar>x\<bar> \<le> 2 ^ 1023)"

subsection \<open>The right-hand side: deriv\<close>

type_synonym state = "npfloat \<times> npfloat \<times> npfloat"

text \<open>The tuple \<^verbatim>\<open>args=(N, beta, gamma)\<close> that odeint passes on to \<^verbatim>\<open>deriv\<close>.\<close>

type_synonym args = "real \<times> real \<times> real"

text \<open>
  \<^verbatim>\<open>
  def deriv(y, t, N, b, g):
      S, I, R = y
      dSdt = -b*S*I / N
      dIdt = b*S*I/N - g*I
      dRdt = g*I
      return dSdt, dIdt, dRdt
  \<close>
\<close>

definition deriv :: "state \<Rightarrow> real \<Rightarrow> args \<Rightarrow> state" where
  "deriv y t a =
     (case y of (S, I, R) \<Rightarrow>
      case a of (N, b, g) \<Rightarrow>
        let dSdt = fl_div (fl_mul (fl_mul (Fin (- b)) S) I) N;
            dIdt = fl_sub (fl_div (fl_mul (fl_mul (Fin b) S) I) N) (fl_mul (Fin g) I);
            dRdt = fl_mul (Fin g) I
        in (dSdt, dIdt, dRdt))"

text \<open>Every product, the quotient and the difference that \<^verbatim>\<open>deriv\<close> forms stay in range.\<close>

definition rates_in_range :: "real \<Rightarrow> real \<Rightarrow> real \<Rightarrow> real \<Rightarrow> real \<Rightarrow> bool" where
  "rates_in_range S I N b g =
     (in_float_range (b * S) \<and> in_float_range (b * S * I) \<and> in_float_range (b * S * I / N)
      \<and> in_float_range (g * I) \<and> in_float_range (b * S * I / N - g * I))"

subsection \<open>The simulator: Instance\<close>

text \<open>
  An integrator takes the right-hand side, the initial state, the time points and the extra
  arguments, and returns one state per row, as \<^verbatim>\<open>odeint(deriv, y_0, t, args=...)\<close> does.
\<close>

type_synonym integrator =
  "(state \<Rightarrow> real \<Rightarrow> args \<Rightarrow> state) \<Rightarrow> state \<Rightarrow> real list \<Rightarrow> args \<Rightarrow> state list"

text \<open>\<^verbatim>\<open>np.arange(n)\<close>: the numbers 0, 1, ..., n-1; empty when n is not positive.\<close>

definition arange :: "int \<Rightarrow> real list" where
  "arange n = map real [0..<nat n]"

text \<open>
  \<^verbatim>\<open>
  def Instance(beta, gamma, S_0, I_0, R_0, num_days):
      N = S_0 + I_0 + R_0
      t = np.arange(num_days)
      y_0 = S_0, I_0, R_0
      ...
      sol = odeint(deriv, y_0, t, args=(N, beta, gamma))
      S, I, R = sol.T
      return S, I, R
  \<close>
  There is no check of the arguments and no raise in the function. The arguments are finite
  floats; the sum \<^verbatim>\<open>N\<close> is taken in the reals.
\<close>

definition Instance ::
  "integrator \<Rightarrow> real \<Rightarrow> real \<Rightarrow> real \<Rightarrow> real \<Rightarrow> real \<Rightarrow> int
     \<Rightarrow> npfloat list \<times> npfloat list \<times> npfloat list" where
  "Instance odeint beta gamma S_0 I_0 R_0 num_days =
     (let N = S_0 + I_0 + R_0;
          t = arange num_days;
          y_0 = (Fin S_0, Fin I_0, Fin R_0);
          sol = odeint deriv y_0 t (N, beta, gamma)
      in (map fst sol, map (fst \<circ> snd) sol, map (snd \<circ> snd) sol))"

subsection \<open>The forward model of the fit: fitting\<close>

text \<open>
  \<^verbatim>\<open>
  def fitting(x, beta, I_0, N, num_days):
      S, I, R = Instance(beta, 1/7, N-I_0, I_0, 0, len(x))
      return I
  \<close>
  In Python 3 \<^verbatim>\<open>1/7\<close> is the quotient of floats. The argument \<^verbatim>\<open>num_days\<close> is not used
  in the body.
\<close>

definition fitting ::
  "integrator \<Rightarrow> real list \<Rightarrow> real \<Rightarrow> real \<Rightarrow> real \<Rightarrow> real \<Rightarrow> npfloat list" where
  "fitting odeint x beta I_0 N num_days =
     (case Instance odeint beta (1 / 7) (N - I_0) I_0 0 (int (length x)) of
        (S, I, R) \<Rightarrow> I)"

subsection \<open>The parameter set built in main\<close>

text \<open>An lmfit parameter: its value, whether the search may vary it, and its bounds.\<close>

record parameter =
  p_value :: real
  p_vary :: bool
  p_min :: "real option"
  p_max :: "real option"

type_synonym parameters = "(string \<times> parameter) list"

datatype error = IndexError | KeyError

text \<open>
  \<^verbatim>\<open>
  model = lmfit.Model(fitting)
  model.set_param_hint("beta", value=-0., min=0, max=1, vary=True)
  params = model.make_params(I_0=I[0], N=N, num_days=len(I))
  \<close>
  The parameters of the model are the arguments of \<^verbatim>\<open>fitting\<close> after the independent
  variable \<^verbatim>\<open>x\<close>; one made without a hint is free and unbounded.
\<close>

definition make_params :: "real \<Rightarrow> real \<Rightarrow> real \<Rightarrow> parameters" where
  "make_params I_0 N num_days =
     [(''beta'', \<lparr>p_value = - 0, p_vary = True, p_min = Some 0, p_max = Some 1\<rparr>),
      (''I_0'', \<lparr>p_value = I_0, p_vary = True, p_min = None, p_max = None\<rparr>),
      (''N'', \<lparr>p_value = N, p_vary = True, p_min = None, p_max = None\<rparr>),
      (''num_days'', \<lparr>p_value = num_days, p_vary = True, p_min = None, p_max = None\<rparr>)]"

text \<open>\<^verbatim>\<open>params[name].vary = v\<close> and \<^verbatim>\<open>params[name].value = v\<close>.\<close>

definition set_vary :: "string \<Rightarrow> bool \<Rightarrow> parameters \<Rightarrow> parameters" where
  "set_vary name v ps = map (\<lambda>(n, p). if n = name then (n, p\<lparr>p_vary := v\<rparr>) else (n, p)) ps"

definition set_value :: "string \<Rightarrow> real \<Rightarrow> parameters \<Rightarrow> parameters" where
  "set_value name v ps = map (\<lambda>(n, p). if n = name then (n, p\<lparr>p_value := v\<rparr>) else (n, p)) ps"

text \<open>
  \<^verbatim>\<open>
  params = model.make_params(I_0=I[0], N=N, num_days=len(I))
  params["N"].vary = False
  params["I_0"].vary = False
  params["num_days"].vary = False
  \<close>
  \<open>main_params\<close> is the table once \<^verbatim>\<open>I[0]\<close> has been read; \<open>main_setup\<close> is the whole
  passage, where \<^verbatim>\<open>I[0]\<close> raises IndexError on an empty series. There is no other check of
  the series.
\<close>

definition main_params :: "real \<Rightarrow> real list \<Rightarrow> real \<Rightarrow> parameters" where
  "main_params I_first I N =
     set_vary ''num_days'' False
       (set_vary ''I_0'' False
          (set_vary ''N'' False
             (make_params I_first N (real (length I)))))"

definition main_setup :: "real list \<Rightarrow> real \<Rightarrow> error + parameters" where
  "main_setup I N =
     (case I of
        [] \<Rightarrow> Inl IndexError
      | I_first # _ \<Rightarrow> Inr (main_params I_first I N))"

text \<open>The parameters the search may move.\<close>

definition free_names :: "parameters \<Rightarrow> string list" where
  "free_names ps = map fst (filter (\<lambda>(n, p). p_vary p) ps)"

text \<open>
  lmfit evaluates the model by calling the model function with the independent variable and
  the current value of every parameter as keyword arguments:
  \<^verbatim>\<open>fitting(x=x, beta=..., I_0=..., N=..., num_days=...)\<close>.
\<close>

definition model_eval :: "integrator \<Rightarrow> parameters \<Rightarrow> real list \<Rightarrow> error + npfloat list" where
  "model_eval odeint ps x =
     (case (map_of ps ''beta'', map_of ps ''I_0'', map_of ps ''N'', map_of ps ''num_days'') of
        (Some b, Some i, Some n, Some d) \<Rightarrow>
          Inr (fitting odeint x (p_value b) (p_value i) (p_value n) (p_value d))
      | _ \<Rightarrow> Inl KeyError)"

subsection \<open>What is taken from the integrator\<close>

text \<open>
  odeint returns an array with one row per time point, the first row being the initial state.
\<close>

definition row_per_time :: "integrator \<Rightarrow> bool" where
  "row_per_time odeint = (\<forall>f y0 t a. length (odeint f y0 t a) = length t)"

definition starts_at_y0 :: "integrator \<Rightarrow> bool" where
  "starts_at_y0 odeint = (\<forall>f y0 t a. t \<noteq> [] \<longrightarrow> odeint f y0 t a \<noteq> [] \<and> hd (odeint f y0 t a) = y0)"

text \<open>
  A fixed-step explicit Euler integrator. It is not scipy's LSODA; it is the concrete
  integrator at which the statements made for every integrator are evaluated.
\<close>

fun vec_axpy :: "state \<Rightarrow> real \<Rightarrow> state \<Rightarrow> state" where
  "vec_axpy (S, I, R) h (dS, dI, dR) =
     (fl_add S (fl_mul (Fin h) dS), fl_add I (fl_mul (Fin h) dI), fl_add R (fl_mul (Fin h) dR))"

fun euler_from ::
  "(state \<Rightarrow> real \<Rightarrow> args \<Rightarrow> state) \<Rightarrow> args \<Rightarrow> state \<Rightarrow> real \<Rightarrow> real list \<Rightarrow> state list" where
  "euler_from f a y t [] = []"
| "euler_from f a y t (t' # ts) =
     (let y' = vec_axpy y (t' - t) (f y t a) in y' # euler_from f a y' t' ts)"

definition euler_odeint :: integrator where
  "euler_odeint f y0 ts a = (case ts of [] \<Rightarrow> [] | t0 # rest \<Rightarrow> y0 # euler_from f a y0 t0 rest)"

section \<open>Properties\<close>

subsection \<open>The Euler integrator meets what is taken from the integrator\<close>

lemma length_euler_from: "length (euler_from f a y t ts) = length ts"
  by (induction ts arbitrary: y t) (simp_all add: Let_def)

lemma euler_row_per_time: "row_per_time euler_odeint"
  by (simp add: row_per_time_def euler_odeint_def length_euler_from split: list.split)

lemma euler_starts_at_y0: "starts_at_y0 euler_odeint"
  by (simp add: starts_at_y0_def euler_odeint_def split: list.split)

subsection \<open>Rows of an integration\<close>

lemma length_arange: "length (arange n) = nat n"
  by (simp add: arange_def)

lemma arange_pos: "0 < n \<Longrightarrow> arange n \<noteq> []"
  by (simp add: arange_def)

lemma row_count:
  assumes "row_per_time odeint"
  shows "length (odeint f y0 t a) = length t"
  using assms unfolding row_per_time_def by blast

lemma first_row:
  assumes "starts_at_y0 odeint" and "t \<noteq> []"
  shows "odeint f y0 t a \<noteq> [] \<and> hd (odeint f y0 t a) = y0"
  using assms unfolding starts_at_y0_def by blast

lemma single_row:
  assumes "row_per_time odeint" and "starts_at_y0 odeint"
  shows "odeint f y0 [t0] a = [y0]"
proof -
  have len: "length (odeint f y0 [t0] a) = 1"
    by (simp add: row_count [OF assms(1)])
  have "hd (odeint f y0 [t0] a) = y0"
    using first_row [OF assms(2), of "[t0]"] by simp
  with len show ?thesis
    by (cases "odeint f y0 [t0] a") auto
qed

subsection \<open>Float operations\<close>

lemma to_float_in_range: "in_float_range x \<Longrightarrow> to_float x = Fin x"
  by (simp add: in_float_range_def to_float_def overflow_threshold_def)



lemma fl_sub_NonFinite: "fl_sub NonFinite x = NonFinite"
  by simp

lemma deriv_finite:
  assumes "N \<noteq> 0" and "rates_in_range S I N b g"
  shows "deriv (Fin S, Fin I, Fin R) t (N, b, g)
           = (Fin (- b * S * I / N), Fin (b * S * I / N - g * I), Fin (g * I))"
proof -
  from assms(2) have r: "in_float_range (b * S)" "in_float_range (b * S * I)"
      "in_float_range (b * S * I / N)" "in_float_range (g * I)"
      "in_float_range (b * S * I / N - g * I)"
    by (simp_all add: rates_in_range_def)
  from r(1-3) have n: "in_float_range (- b * S)" "in_float_range (- b * S * I)"
      "in_float_range (- b * S * I / N)"
    by (simp_all add: in_float_range_def)
  have p1: "fl_mul (Fin b) (Fin S) = Fin (b * S)"
    by (simp add: to_float_in_range [OF r(1)])
  have p2: "fl_mul (Fin (b * S)) (Fin I) = Fin (b * S * I)"
    by (simp add: to_float_in_range [OF r(2)])
  have p3: "fl_div (Fin (b * S * I)) N = Fin (b * S * I / N)"
    using assms(1) by (simp add: to_float_in_range [OF r(3)])
  have p4: "fl_mul (Fin g) (Fin I) = Fin (g * I)"
    by (simp add: to_float_in_range [OF r(4)])
  have p5: "fl_sub (Fin (b * S * I / N)) (Fin (g * I)) = Fin (b * S * I / N - g * I)"
    by (simp add: to_float_in_range [OF r(5)])
  have q1: "fl_mul (Fin (- b)) (Fin S) = Fin (- b * S)"
    using to_float_in_range [OF n(1)] by simp
  have q2: "fl_mul (Fin (- b * S)) (Fin I) = Fin (- b * S * I)"
    using to_float_in_range [OF n(2)] by simp
  have q3: "fl_div (Fin (- b * S * I)) N = Fin (- b * S * I / N)"
    using assms(1) to_float_in_range [OF n(3)] by simp
  show ?thesis
    unfolding deriv_def Let_def prod.case p1 p2 p3 p4 p5 q1 q2 q3 ..
qed

subsection \<open>The vector field\<close>

text \<open>
  On a finite state, with a population other than zero and while its products stay in float
  range, the three rates add up to zero, the susceptible never gain and the recovered never
  lose (for non-negative compartments and rates), and without transmission the infected
  decay at rate \<open>g\<close>, which is the equation that \<open>I_0 * exp (- g * t)\<close> solves. These are
  facts about \<^verbatim>\<open>deriv\<close>; what an adaptive floating-point integrator makes of them is
  outside this development.
\<close>

lemma deriv_sum_zero:
  assumes "N \<noteq> 0" and "rates_in_range S I N b g"
  shows "\<exists>dS dI dR. deriv (Fin S, Fin I, Fin R) t (N, b, g) = (Fin dS, Fin dI, Fin dR)
           \<and> dS + dI + dR = 0"
  by (simp add: deriv_finite [OF assms])

lemma deriv_signs:
  assumes "0 < N" and "0 \<le> S" and "0 \<le> I" and "0 \<le> b" and "0 \<le> g"
    and "rates_in_range S I N b g"
  shows "\<exists>dS dI dR. deriv (Fin S, Fin I, Fin R) t (N, b, g) = (Fin dS, Fin dI, Fin dR)
           \<and> dS \<le> 0 \<and> 0 \<le> dR"
proof -
  have "N \<noteq> 0"
    using assms(1) by simp
  from deriv_finite [OF this assms(6)] assms(1-5) show ?thesis
    by (simp add: divide_nonpos_pos mult_nonneg_nonneg)
qed

lemma deriv_beta_zero:
  assumes "N \<noteq> 0" and "in_float_range (g * I)"
  shows "deriv (Fin S, Fin I, Fin R) t (N, 0, g) = (Fin 0, Fin (- g * I), Fin (g * I))"
proof -
  have "rates_in_range S I N 0 g"
    using assms(2) by (simp add: rates_in_range_def in_float_range_def)
  from deriv_finite [OF assms(1) this] show ?thesis
    by simp
qed

lemma exponential_decay_solves:
  "((\<lambda>t. I_0 * exp (- g * t)) has_real_derivative - g * (I_0 * exp (- g * t))) (at t)"
  by (auto intro!: derivative_eq_intros)

subsection \<open>The parameter table of main\<close>

lemma main_params_table:
  "main_params i I N =
     [(''beta'', \<lparr>p_value = 0, p_vary = True, p_min = Some 0, p_max = Some 1\<rparr>),
      (''I_0'', \<lparr>p_value = i, p_vary = False, p_min = None, p_max = None\<rparr>),
      (''N'', \<lparr>p_value = N, p_vary = False, p_min = None, p_max = None\<rparr>),
      (''num_days'', \<lparr>p_value = real (length I), p_vary = False, p_min = None, p_max = None\<rparr>)]"
  by (simp add: main_params_def make_params_def set_vary_def)

lemma beta_box:
  "map_of (main_params i I N) ''beta''
     = Some \<lparr>p_value = 0, p_vary = True, p_min = Some 0, p_max = Some 1\<rparr>"
  by (simp add: main_params_table)

subsection \<open>The forward model of the fit\<close>

text \<open>
  C2. For a non-empty observation series and a population N, \<^verbatim>\<open>main\<close> builds its parameter
  table without error; \<open>beta\<close> is the only parameter the search may vary (I_0, N and num_days
  are fixed, and gamma is no parameter at all); and whatever value the search gives to
  \<open>beta\<close>, the model it evaluates is the infected column of the integration started at
  S0 = N - observed_I[0], I0 = observed_I[0], R0 = 0 with total population N and recovery
  rate 1/7.
\<close>

theorem fitter_forward_model:
  assumes "observed_I \<noteq> []"
  shows "main_setup observed_I N = Inr (main_params (observed_I ! 0) observed_I N)
       \<and> free_names (main_params (observed_I ! 0) observed_I N) = [''beta'']
       \<and> (\<forall>b. model_eval odeint
                 (set_value ''beta'' b (main_params (observed_I ! 0) observed_I N)) x
              = Inr (map (fst \<circ> snd)
                      (odeint deriv (Fin (N - observed_I ! 0), Fin (observed_I ! 0), Fin 0)
                         (arange (int (length x))) (N, b, 1 / 7))))"
proof -
  obtain i rest where obs: "observed_I = i # rest"
    using assms by (cases observed_I) auto
  have built: "main_setup observed_I N = Inr (main_params (observed_I ! 0) observed_I N)"
    by (simp add: obs main_setup_def)
  have free: "free_names (main_params (observed_I ! 0) observed_I N) = [''beta'']"
    by (simp add: main_params_table free_names_def)
  have ev: "model_eval odeint (set_value ''beta'' b (main_params (observed_I ! 0) observed_I N)) x
              = Inr (map (fst \<circ> snd)
                      (odeint deriv (Fin (N - observed_I ! 0), Fin (observed_I ! 0), Fin 0)
                         (arange (int (length x))) (N, b, 1 / 7)))" for b
    by (simp add: main_params_table set_value_def model_eval_def fitting_def Instance_def Let_def)
  from built free ev show ?thesis by blast
qed

theorem fitter_forward_model_witness:
  "[1000, 1100] \<noteq> ([] :: real list)
   \<and> main_setup [1000, 1100] 13076721 = Inr (main_params 1000 [1000, 1100] 13076721)
   \<and> free_names (main_params 1000 [1000, 1100] 13076721) = [''beta'']
   \<and> model_eval euler_odeint
        (set_value ''beta'' (1 / 5) (main_params 1000 [1000, 1100] 13076721)) [0, 1]
      = Inr (map (fst \<circ> snd)
              (euler_odeint deriv (Fin (13076721 - 1000), Fin 1000, Fin 0)
                 (arange 2) (13076721, 1 / 5, 1 / 7)))"
proof -
  have ne: "[1000, 1100] \<noteq> ([] :: real list)"
    by simp
  from fitter_forward_model [OF ne, of 13076721 euler_odeint "[0, 1]"] ne
  show ?thesis by simp
qed

text \<open>
  C10. \<^verbatim>\<open>fitting\<close> never reads its argument \<^verbatim>\<open>num_days\<close>: two calls that differ only there
  return the same trajectory, and with an integrator that returns one row per time point the
  trajectory has as many entries as the time array \<^verbatim>\<open>x\<close>.
\<close>

theorem fitting_ignores_num_days:
  assumes "row_per_time odeint"
  shows "length (fitting odeint x beta I_0 N num_days) = length x
       \<and> fitting odeint x beta I_0 N num_days = fitting odeint x beta I_0 N num_days'"
  using assms
  by (simp add: fitting_def Instance_def Let_def row_per_time_def arange_def)

theorem fitting_ignores_num_days_witness:
  "row_per_time euler_odeint
   \<and> length (fitting euler_odeint [0, 1, 2] (1 / 5) 1000 13076721 3) = length [0, 1, 2 :: real]
   \<and> fitting euler_odeint [0, 1, 2] (1 / 5) 1000 13076721 3
       = fitting euler_odeint [0, 1, 2] (1 / 5) 1000 13076721 365"
  using fitting_ignores_num_days [OF euler_row_per_time, of "[0, 1, 2]" "1 / 5" 1000 13076721 3 365]
    euler_row_per_time
  by blast

subsection \<open>Arguments the simulator does not check\<close>

text \<open>
  C5 (as the code has it). \<^verbatim>\<open>Instance\<close> checks none of its arguments and has no
  InvalidParameter error. For every beta and gamma (zero too) and all initial values
  (negative ones too) whose sum stays in float range, it hands exactly these values, with
  \<^verbatim>\<open>deriv\<close> and the total N, to the integrator and returns the three columns of the
  integrator's result. For an integrator that returns one row per time point and starts at
  the initial state, and \<^verbatim>\<open>num_days\<close> at least 1, the trajectory therefore has
  \<^verbatim>\<open>num_days\<close> rows and begins with the initial values as they were given.
\<close>

theorem Instance_no_validation:
  assumes "row_per_time odeint" and "starts_at_y0 odeint" and "0 < num_days"
    and "in_float_range (S_0 + I_0)" and "in_float_range (S_0 + I_0 + R_0)"
  shows "Instance odeint beta gamma S_0 I_0 R_0 num_days
           = (let sol = odeint deriv (Fin S_0, Fin I_0, Fin R_0) (arange num_days)
                          (S_0 + I_0 + R_0, beta, gamma)
              in (map fst sol, map (fst \<circ> snd) sol, map (snd \<circ> snd) sol))
       \<and> (case Instance odeint beta gamma S_0 I_0 R_0 num_days of
             (S, I, R) \<Rightarrow>
               length S = nat num_days \<and> length I = nat num_days \<and> length R = nat num_days
               \<and> hd S = Fin S_0 \<and> hd I = Fin I_0 \<and> hd R = Fin R_0)"
proof -
  let ?sol = "odeint deriv (Fin S_0, Fin I_0, Fin R_0) (arange num_days)
                (S_0 + I_0 + R_0, beta, gamma)"
  have passed: "Instance odeint beta gamma S_0 I_0 R_0 num_days
                  = (let sol = ?sol
                     in (map fst sol, map (fst \<circ> snd) sol, map (snd \<circ> snd) sol))"
    by (simp add: Instance_def Let_def)
  have len: "length ?sol = nat num_days"
    by (simp add: row_count [OF assms(1)] length_arange)
  have "?sol \<noteq> [] \<and> hd ?sol = (Fin S_0, Fin I_0, Fin R_0)"
    using first_row [OF assms(2) arange_pos [OF assms(3)]] .
  then have heads: "hd (map fst ?sol) = Fin S_0" "hd (map (fst \<circ> snd) ?sol) = Fin I_0"
      "hd (map (snd \<circ> snd) ?sol) = Fin R_0"
    by (simp_all add: hd_map)
  have rows: "case Instance odeint beta gamma S_0 I_0 R_0 num_days of
             (S, I, R) \<Rightarrow>
               length S = nat num_days \<and> length I = nat num_days \<and> length R = nat num_days
               \<and> hd S = Fin S_0 \<and> hd I = Fin I_0 \<and> hd R = Fin R_0"
    using len heads by (simp add: Instance_def Let_def)
  from passed rows show ?thesis ..
qed

theorem Instance_no_validation_witness:
  "row_per_time euler_odeint \<and> starts_at_y0 euler_odeint \<and> (0::int) < 2
   \<and> in_float_range (- 5 + 10) \<and> in_float_range (- 5 + 10 + 0)
   \<and> Instance euler_odeint (1 / 5) 0 (- 5) 10 0 2
       = (let sol = euler_odeint deriv (Fin (- 5), Fin 10, Fin 0) (arange 2)
                      (- 5 + 10 + 0, 1 / 5, 0)
          in (map fst sol, map (fst \<circ> snd) sol, map (snd \<circ> snd) sol))
   \<and> (case Instance euler_odeint (1 / 5) 0 (- 5) 10 0 2 of
         (S, I, R) \<Rightarrow>
           length S = nat 2 \<and> length I = nat 2 \<and> length R = nat 2
           \<and> hd S = Fin (- 5) \<and> hd I = Fin 10 \<and> hd R = Fin 0)"
proof -
  have pos: "(0::int) < 2"
    by simp
  have r1: "in_float_range (- 5 + 10)"
    by (simp add: in_float_range_def)
  have r2: "in_float_range (- 5 + 10 + 0)"
    by (simp add: in_float_range_def)
  from Instance_no_validation [OF euler_row_per_time euler_starts_at_y0 pos r1 r2,
      where beta = "1 / 5" and gamma = 0]
    euler_row_per_time euler_starts_at_y0 pos r1 r2
  show ?thesis by blast
qed

text \<open>
  C5 as the specification has it fails. With gamma = 0 and the initial values 990, 10, 0 the
  call raises nothing: whatever integrator is used, it is called with exactly these values
  and its rows are returned. So it is with gamma = 1/7 and the negative initial value
  S_0 = -5.
\<close>

theorem Instance_invalid_parameter_counterexample:
  "(\<forall>odeint. Instance odeint (1 / 5) 0 990 10 0 2
       = (let sol = odeint deriv (Fin 990, Fin 10, Fin 0) [0, 1] (1000, 1 / 5, 0)
          in (map fst sol, map (fst \<circ> snd) sol, map (snd \<circ> snd) sol)))
   \<and> (\<forall>odeint. Instance odeint (1 / 5) (1 / 7) (- 5) 10 0 2
       = (let sol = odeint deriv (Fin (- 5), Fin 10, Fin 0) [0, 1] (5, 1 / 5, 1 / 7)
          in (map fst sol, map (fst \<circ> snd) sol, map (snd \<circ> snd) sol)))"
  by (simp add: Instance_def Let_def arange_def upt_rec)

subsection \<open>Short observation series\<close>

text \<open>
  C6 (as the code has it). \<^verbatim>\<open>main\<close> has no check of the length of the series and no
  InsufficientData error. On an empty series reading \<^verbatim>\<open>I[0]\<close> raises IndexError. A series
  of one value \<open>v\<close> passes: the parameter table is built, and the model that the search
  evaluates on \<^verbatim>\<open>x = np.arange(1)\<close> is the single value \<open>v\<close> whatever \<open>beta\<close> is (for an
  integrator that returns one row per time point and starts at the initial state).
\<close>

theorem short_series:
  assumes "row_per_time odeint" and "starts_at_y0 odeint"
  shows "main_setup [] N = Inl IndexError
       \<and> main_setup [v] N = Inr (main_params v [v] N)
       \<and> (\<forall>b. model_eval odeint (set_value ''beta'' b (main_params v [v] N)) (arange 1)
              = Inr [Fin v])"
proof -
  have ev: "model_eval odeint (set_value ''beta'' b (main_params v [v] N)) (arange 1)
              = Inr [Fin v]" for b
    by (simp add: main_params_table set_value_def model_eval_def fitting_def Instance_def
        Let_def arange_def single_row [OF assms])
  show ?thesis
    using ev by (simp add: main_setup_def)
qed

theorem short_series_witness:
  "row_per_time euler_odeint \<and> starts_at_y0 euler_odeint
   \<and> main_setup [] 13076721 = Inl IndexError
   \<and> main_setup [1000] 13076721 = Inr (main_params 1000 [1000] 13076721)
   \<and> model_eval euler_odeint (set_value ''beta'' (1 / 5) (main_params 1000 [1000] 13076721))
        (arange 1) = Inr [Fin 1000]"
  using short_series [OF euler_row_per_time euler_starts_at_y0, where N = 13076721 and v = 1000]
    euler_row_per_time euler_starts_at_y0
  by blast

text \<open>
  C6 as the specification has it fails: the empty series ends in Python's IndexError, and the
  series \<open>[1000]\<close> for Bayern's population ends in no error at all; its parameter table is
  built and its model evaluates to \<open>[1000]\<close>.
\<close>

theorem insufficient_data_counterexample:
  "main_setup [] 13076721 = Inl IndexError
   \<and> main_setup [1000] 13076721
       = Inr [(''beta'', \<lparr>p_value = 0, p_vary = True, p_min = Some 0, p_max = Some 1\<rparr>),
              (''I_0'', \<lparr>p_value = 1000, p_vary = False, p_min = None, p_max = None\<rparr>),
              (''N'', \<lparr>p_value = 13076721, p_vary = False, p_min = None, p_max = None\<rparr>),
              (''num_days'', \<lparr>p_value = 1, p_vary = False, p_min = None, p_max = None\<rparr>)]
   \<and> model_eval euler_odeint (main_params 1000 [1000] 13076721) [0] = Inr [Fin 1000]"
  by (simp add: main_setup_def main_params_table model_eval_def fitting_def Instance_def
      Let_def arange_def euler_odeint_def)

subsection \<open>A population of zero\<close>




end
